theory Spec2Isabelle
  imports Main "HOL-Library.Sublist"
begin

section \<open>Data model\<close>

text \<open>
  A cluster node is the dictionary \<^verbatim>\<open>{"id": ..., "address": ...}\<close> of \<^verbatim>\<open>config.py\<close>.
  The key \<^verbatim>\<open>"id"\<close> is the field \<open>ident\<close> here, since \<open>id\<close> is the identity function of HOL.
  Such a dictionary is never empty, so it is always true in a Python condition.
\<close>

record node =
  ident :: string
  address :: string

text \<open>
  The integer-valued measurements of a health report (\<^verbatim>\<open>monitor.get_node_health\<close>). The
  monitor draws them at random, so they are an input here; the timestamp and the three
  floating-point rates of the report are left out, as no function below reads them.
\<close>

record metrics =
  disk_io_errors :: int
  latency_p99_ms :: int
  smart_warnings :: int
  raft_term_changes_per_hour :: int
  available_disk_gb :: int

record health_report =
  node_id :: string
  measured :: metrics

text \<open>
  The value that \<^verbatim>\<open>json.loads\<close> returns, and so the type of a prediction and of the
  \<^verbatim>\<open>severity\<close> and \<^verbatim>\<open>reason\<close> entries read from it. A dictionary is a list of
  key-value pairs looked up from the front.
\<close>

datatype json =
    JNull
  | JBool bool
  | JNum int
  | JStr string
  | JArr "json list"
  | JObj "(string \<times> json) list"

definition dict_get :: "(string \<times> json) list \<Rightarrow> string \<Rightarrow> json \<Rightarrow> json" where
  "dict_get d k dflt = (case map_of d k of None \<Rightarrow> dflt | Some v \<Rightarrow> v)"

text \<open>
  The settings of \<^verbatim>\<open>config.py\<close> that the code below reads, and the flag
  \<^verbatim>\<open>OPENAI_AVAILABLE\<close> that \<^verbatim>\<open>predictor.py\<close> sets when it is imported.
\<close>

record config =
  cluster_nodes :: "node list"
  use_mock :: bool
  mock_warning_prediction_interval :: int
  mock_critical_prediction_interval :: int
  alerting_enabled :: bool
  recipient_email :: string
  openai_available :: bool

definition default_config :: "bool \<Rightarrow> config" where
  "default_config available =
     \<lparr>cluster_nodes =
        [\<lparr>ident = ''node-1'', address = ''192.168.1.101''\<rparr>,
         \<lparr>ident = ''node-2'', address = ''192.168.1.102''\<rparr>,
         \<lparr>ident = ''node-3'', address = ''192.168.1.103''\<rparr>,
         \<lparr>ident = ''node-4-unstable'', address = ''192.168.1.104''\<rparr>],
      use_mock = True,
      mock_warning_prediction_interval = 3,
      mock_critical_prediction_interval = 5,
      alerting_enabled = True,
      recipient_email = ''admin@distributedsystem.com'',
      openai_available = available\<rparr>"

text \<open>
  What the program does to the outside, in the order it does it: an alert printed by
  \<^verbatim>\<open>send_alert\<close> (recipient, node, reason, severity, follow-up flag) and the three calls
  to the provisioning and membership backend.
\<close>

datatype effect =
    Alert string string json string bool
  | Provision
  | AddPeer string
  | RemovePeer string

text \<open>
  The mutable state: the two attributes of the agent object, the module-level counters
  \<^verbatim>\<open>predictor._mock_check_counter\<close> and \<^verbatim>\<open>healer._new_node_counter\<close>, and the log of
  effects.
\<close>

record world =
  current_nodes :: "node list"
  greylisted_nodes :: "string set"
  mock_check_counter :: nat
  new_node_counter :: nat
  effects :: "effect list"

text \<open>
  What the backend answers while one report is handled: the clock value
  \<^verbatim>\<open>int(time.time())\<close> that names a new node, and for each of the three backend calls
  whether it raises. The functions of \<^verbatim>\<open>healer.py\<close> only simulate the calls; the
  \<^verbatim>\<open>try\<close> blocks around them are written for calls that can raise.
\<close>

record backend =
  clock :: nat
  provision_raises :: bool
  add_peer_raises :: bool
  remove_peer_raises :: bool

datatype healer_error = ProvisioningError | MembershipError

text \<open>
  What the request to the language model does: it raises, or its answer is not JSON, or
  the answer decodes to a value.
\<close>

datatype api_error = APIConnectionError | RateLimitError | AuthenticationError | OtherException

datatype llm_outcome = Raises api_error | InvalidJSON | Decoded json

datatype agent_error = AttributeError

section \<open>Strings\<close>

text \<open>Python's \<^verbatim>\<open>sub in s\<close> on strings.\<close>

fun contains :: "string \<Rightarrow> string \<Rightarrow> bool" where
  "contains sub [] = (sub = [])"
| "contains sub (c # cs) = (prefix sub (c # cs) \<or> contains sub cs)"

text \<open>Python's \<^verbatim>\<open>str\<close> of a natural number.\<close>

fun str_nat :: "nat \<Rightarrow> string" where
  "str_nat n = (if n < 10 then [''0123456789'' ! n]
                else str_nat (n div 10) @ [''0123456789'' ! (n mod 10)])"

declare str_nat.simps [simp del]

text \<open>\<^verbatim>\<open>HEALER_CONFIG["new_node_address_template"].format(i=...)\<close>\<close>

definition new_node_address :: "nat \<Rightarrow> string" where
  "new_node_address i = ''192.168.1.20'' @ str_nat i"

section \<open>healer.py\<close>

definition send_alert ::
  "config \<Rightarrow> string \<Rightarrow> string \<Rightarrow> json \<Rightarrow> string \<Rightarrow> bool \<Rightarrow> world \<Rightarrow> world" where
  "send_alert cfg recipient nid reason severity is_follow_up w =
     (if \<not> alerting_enabled cfg then w
      else if severity = ''critical'' \<or> severity = ''warning''
      then w\<lparr>effects := effects w @ [Alert recipient nid reason severity is_follow_up]\<rparr>
      else w)"

definition provision_new_node :: "backend \<Rightarrow> world \<Rightarrow> (healer_error + node) \<times> world" where
  "provision_new_node b w =
     (let w1 = w\<lparr>new_node_counter := new_node_counter w + 1,
                 effects := effects w @ [Provision]\<rparr>
      in if provision_raises b then (Inl ProvisioningError, w1)
         else (Inr \<lparr>ident = ''node-new-'' @ str_nat (clock b),
                    address = new_node_address (new_node_counter w1)\<rparr>, w1))"

definition add_node_to_raft_cluster ::
  "backend \<Rightarrow> string \<Rightarrow> world \<Rightarrow> (healer_error + unit) \<times> world" where
  "add_node_to_raft_cluster b new_node_addr w =
     (let w1 = w\<lparr>effects := effects w @ [AddPeer new_node_addr]\<rparr>
      in if add_peer_raises b then (Inl MembershipError, w1) else (Inr (), w1))"

definition remove_node_from_raft_cluster ::
  "backend \<Rightarrow> string \<Rightarrow> world \<Rightarrow> (healer_error + unit) \<times> world" where
  "remove_node_from_raft_cluster b failing_node_addr w =
     (let w1 = w\<lparr>effects := effects w @ [RemovePeer failing_node_addr]\<rparr>
      in if remove_peer_raises b then (Inl MembershipError, w1) else (Inr (), w1))"

text \<open>
  Both handlers return the new node, or \<open>None\<close> when any call of the \<^verbatim>\<open>try\<close> block
  raised.
\<close>

definition handle_greylist_expansion ::
  "config \<Rightarrow> backend \<Rightarrow> node \<Rightarrow> json \<Rightarrow> world \<Rightarrow> node option \<times> world" where
  "handle_greylist_expansion cfg b node_info reason w =
     (let nid = ident node_info;
          w1 = send_alert cfg (recipient_email cfg) nid reason ''warning'' False w
      in case provision_new_node b w1 of
           (Inl e, w2) \<Rightarrow> (None, w2)
         | (Inr new_node, w2) \<Rightarrow>
             (case add_node_to_raft_cluster b (address new_node) w2 of
                (Inl e, w3) \<Rightarrow> (None, w3)
              | (Inr u, w3) \<Rightarrow> (Some new_node, w3)))"

definition handle_critical_failure ::
  "config \<Rightarrow> backend \<Rightarrow> node \<Rightarrow> json \<Rightarrow> world \<Rightarrow> node option \<times> world" where
  "handle_critical_failure cfg b failing_node reason w =
     (let failing_node_id = ident failing_node;
          failing_node_addr = address failing_node;
          w1 = send_alert cfg (recipient_email cfg) failing_node_id reason ''critical'' False w
      in case provision_new_node b w1 of
           (Inl e, w2) \<Rightarrow> (None, w2)
         | (Inr new_node, w2) \<Rightarrow>
             (case add_node_to_raft_cluster b (address new_node) w2 of
                (Inl e, w3) \<Rightarrow> (None, w3)
              | (Inr u, w3) \<Rightarrow>
                  (case remove_node_from_raft_cluster b failing_node_addr w3 of
                     (Inl e, w4) \<Rightarrow> (None, w4)
                   | (Inr u', w4) \<Rightarrow> (Some new_node, w4))))"

section \<open>predictor.py\<close>

definition predict_mock :: "config \<Rightarrow> health_report \<Rightarrow> world \<Rightarrow> json \<times> world" where
  "predict_mock cfg report w =
     (let w1 = w\<lparr>mock_check_counter := mock_check_counter w + 1\<rparr>;
          nid = node_id report;
          is_unstable_node = contains ''unstable'' nid
      in if \<not> is_unstable_node
         then (JObj [(''severity'', JStr ''none''),
                     (''reason'', JStr ''Mock: Node is stable.'')], w1)
         else
           let warning_interval = mock_warning_prediction_interval cfg;
               critical_interval = mock_critical_prediction_interval cfg
           in if int (mock_check_counter w1) \<ge> critical_interval
              then (JObj [(''severity'', JStr ''critical''),
                          (''reason'', JStr (''Mock critical failure: Node '' @ [CHR 0x27] @ nid
                             @ [CHR 0x27]
                             @ '' is showing multiple critical signs (e.g., S.M.A.R.T. warnings).''))],
                    w1)
              else if int (mock_check_counter w1) \<ge> warning_interval
              then (JObj [(''severity'', JStr ''warning''),
                          (''reason'', JStr (''Mock warning: Node '' @ [CHR 0x27] @ nid
                             @ [CHR 0x27]
                             @ '' is showing early signs of trouble (e.g., elevated latency).''))],
                    w1)
              else (JObj [(''severity'', JStr ''none''),
                          (''reason'', JStr ''Mock: Unstable node is currently healthy.'')], w1))"

definition predict_failure ::
  "config \<Rightarrow> health_report \<Rightarrow> llm_outcome \<Rightarrow> world \<Rightarrow> json \<times> world" where
  "predict_failure cfg report llm w =
     (let mock = (if \<not> openai_available cfg \<and> \<not> use_mock cfg then True else use_mock cfg)
      in if mock then predict_mock cfg report w
         else case llm of
                Raises e \<Rightarrow>
                  (JObj [(''severity'', JStr ''none''),
                         (''reason'', JStr ''Prediction failed due to an API error.'')], w)
              | InvalidJSON \<Rightarrow>
                  (JObj [(''severity'', JStr ''none''),
                         (''reason'',
                          JStr ''Prediction failed due to invalid LLM response format.'')], w)
              | Decoded prediction \<Rightarrow> (prediction, w))"

section \<open>monitor.py\<close>

definition get_node_health :: "node \<Rightarrow> metrics \<Rightarrow> health_report" where
  "get_node_health n m = \<lparr>node_id = ident n, measured = m\<rparr>"

text \<open>One report per node, in the order of the nodes; \<open>sample i\<close> is what node \<open>i\<close> shows.\<close>

definition get_cluster_health :: "(nat \<Rightarrow> metrics) \<Rightarrow> node list \<Rightarrow> health_report list" where
  "get_cluster_health sample nodes =
     map (\<lambda>(i, n). get_node_health n (sample i)) (enumerate 0 nodes)"

section \<open>agent.py\<close>

definition agent_init :: "config \<Rightarrow> world" where
  "agent_init cfg =
     \<lparr>current_nodes = cluster_nodes cfg,
      greylisted_nodes = {},
      mock_check_counter = 0,
      new_node_counter = 0,
      effects = []\<rparr>"

definition find_node_config :: "string \<Rightarrow> world \<Rightarrow> node option" where
  "find_node_config nid w = find (\<lambda>n. ident n = nid) (current_nodes w)"

definition handle_critical_node ::
  "config \<Rightarrow> backend \<Rightarrow> health_report \<Rightarrow> json \<Rightarrow> world \<Rightarrow> world" where
  "handle_critical_node cfg b report reason w =
     (let nid = node_id report
      in case find_node_config nid w of
           None \<Rightarrow> w
         | Some failing_node_config \<Rightarrow>
             (case handle_critical_failure cfg b failing_node_config reason w of
                (Some new_node, w1) \<Rightarrow>
                  w1\<lparr>current_nodes :=
                        filter (\<lambda>n. ident n \<noteq> nid) (current_nodes w1) @ [new_node],
                      greylisted_nodes := greylisted_nodes w1 - {nid}\<rparr>
              | (None, w1) \<Rightarrow> w1))"

definition handle_warning_node ::
  "config \<Rightarrow> backend \<Rightarrow> health_report \<Rightarrow> json \<Rightarrow> world \<Rightarrow> world" where
  "handle_warning_node cfg b report reason w =
     (let nid = node_id report
      in case find_node_config nid w of
           None \<Rightarrow> w
         | Some node_config \<Rightarrow>
             if nid \<notin> greylisted_nodes w
             then
               (let w1 = w\<lparr>greylisted_nodes := insert nid (greylisted_nodes w)\<rparr>
                in case handle_greylist_expansion cfg b node_config reason w1 of
                     (Some new_node, w2) \<Rightarrow>
                       w2\<lparr>current_nodes := current_nodes w2 @ [new_node]\<rparr>
                   | (None, w2) \<Rightarrow> w2)
             else send_alert cfg (recipient_email cfg) nid reason ''warning'' True w)"

text \<open>
  The loop of \<^verbatim>\<open>run_check_cycle\<close> over the health reports. Each report comes with what
  the language model and the backend answer while it is handled. A prediction that is
  not a dictionary has no \<^verbatim>\<open>get\<close>: the cycle ends there with the exception, and the
  changes made so far stay. A critical severity ends the loop (\<^verbatim>\<open>break\<close>).
\<close>

fun process_reports ::
  "config \<Rightarrow> (health_report \<times> llm_outcome \<times> backend) list \<Rightarrow> world
     \<Rightarrow> agent_error option \<times> world" where
  "process_reports cfg [] w = (None, w)"
| "process_reports cfg ((report, llm, b) # rest) w =
     (let nid = node_id report
      in case predict_failure cfg report llm w of
           (JObj d, w1) \<Rightarrow>
             (let severity = dict_get d ''severity'' (JStr ''none'');
                  reason = dict_get d ''reason'' (JStr ''No reason provided.'')
              in if severity = JStr ''critical''
                 then (None, handle_critical_node cfg b report reason w1)
                 else if severity = JStr ''warning''
                 then process_reports cfg rest (handle_warning_node cfg b report reason w1)
                 else if nid \<in> greylisted_nodes w1
                 then process_reports cfg rest
                        (w1\<lparr>greylisted_nodes := greylisted_nodes w1 - {nid}\<rparr>)
                 else process_reports cfg rest w1)
         | (other, w1) \<Rightarrow> (Some AttributeError, w1))"

text \<open>
  What one cycle meets: the measurements of the node at each position, and the answers of
  the language model and of the backend while the report at that position is handled.
\<close>

record cycle_env =
  sample_of :: "nat \<Rightarrow> metrics"
  llm_of :: "nat \<Rightarrow> llm_outcome"
  backend_of :: "nat \<Rightarrow> backend"

definition run_check_cycle :: "config \<Rightarrow> cycle_env \<Rightarrow> world \<Rightarrow> agent_error option \<times> world" where
  "run_check_cycle cfg env w =
     (let health_reports = get_cluster_health (sample_of env) (current_nodes w)
      in process_reports cfg
           (map (\<lambda>(i, report). (report, llm_of env i, backend_of env i))
              (enumerate 0 health_reports)) w)"

text \<open>
  The main loop \<^verbatim>\<open>run\<close> never ends by itself; here it runs one cycle for each element of
  a list. An exception of a cycle is caught and the loop goes on with the state as the
  cycle left it.
\<close>

fun run :: "config \<Rightarrow> cycle_env list \<Rightarrow> world \<Rightarrow> world" where
  "run cfg [] w = w"
| "run cfg (env # envs) w = run cfg envs (snd (run_check_cycle cfg env w))"

section \<open>The invariant of the cluster state\<close>

definition greylist_inv :: "world \<Rightarrow> bool" where
  "greylist_inv w = (greylisted_nodes w \<subseteq> ident ` set (current_nodes w))"

section \<open>Observers of the effect log\<close>

fun is_critical_alert :: "effect \<Rightarrow> bool" where
  "is_critical_alert (Alert recipient nid reason severity is_follow_up) = (severity = ''critical'')"
| "is_critical_alert e = False"

fun is_remove_peer :: "effect \<Rightarrow> bool" where
  "is_remove_peer (RemovePeer a) = True"
| "is_remove_peer e = False"

section \<open>Concrete inputs\<close>

definition quiet_metrics :: metrics where
  "quiet_metrics = \<lparr>disk_io_errors = 0, latency_p99_ms = 20, smart_warnings = 0,
      raft_term_changes_per_hour = 1, available_disk_gb = 1000\<rparr>"

definition report_for :: "string \<Rightarrow> health_report" where
  "report_for nid = \<lparr>node_id = nid, measured = quiet_metrics\<rparr>"

text \<open>The configuration of \<^verbatim>\<open>config.py\<close> with the mock predictor switched off.\<close>

definition live_config :: config where
  "live_config = (default_config True)\<lparr>use_mock := False\<rparr>"

definition answers :: "string \<Rightarrow> llm_outcome" where
  "answers s = Decoded (JObj [(''severity'', JStr s), (''reason'', JStr ''disk'')])"

definition backend_at :: "nat \<Rightarrow> bool \<Rightarrow> bool \<Rightarrow> bool \<Rightarrow> backend" where
  "backend_at t p a r =
     \<lparr>clock = t, provision_raises = p, add_peer_raises = a, remove_peer_raises = r\<rparr>"

definition steady_env :: cycle_env where
  "steady_env = \<lparr>sample_of = (\<lambda>i. quiet_metrics), llm_of = (\<lambda>i. answers ''warning''),
      backend_of = (\<lambda>i. backend_at 1700000000 False False False)\<rparr>"

text \<open>The initial state, and the initial state with the second node greylisted.\<close>

definition initial_world :: world where
  "initial_world = agent_init live_config"

definition greylisted_world :: world where
  "greylisted_world = (agent_init live_config)\<lparr>greylisted_nodes := {''node-2''}\<rparr>"

text \<open>The initial state with the first node greylisted, as a failed expansion leaves it.\<close>

definition still_greylisted_world :: world where
  "still_greylisted_world = (agent_init live_config)\<lparr>greylisted_nodes := {''node-1''}\<rparr>"

section \<open>What the healer and the predictor leave alone\<close>

lemma send_alert_frame [simp]:
  "current_nodes (send_alert cfg r n rs s f w) = current_nodes w"
  "greylisted_nodes (send_alert cfg r n rs s f w) = greylisted_nodes w"
  "mock_check_counter (send_alert cfg r n rs s f w) = mock_check_counter w"
  "new_node_counter (send_alert cfg r n rs s f w) = new_node_counter w"
  by (simp_all add: send_alert_def)

lemma handle_greylist_expansion_frame:
  "current_nodes (snd (handle_greylist_expansion cfg b n reason w)) = current_nodes w"
  "greylisted_nodes (snd (handle_greylist_expansion cfg b n reason w)) = greylisted_nodes w"
  "mock_check_counter (snd (handle_greylist_expansion cfg b n reason w)) = mock_check_counter w"
  by (simp_all add: handle_greylist_expansion_def provision_new_node_def
        add_node_to_raft_cluster_def Let_def)

lemma handle_critical_failure_frame:
  "current_nodes (snd (handle_critical_failure cfg b n reason w)) = current_nodes w"
  "greylisted_nodes (snd (handle_critical_failure cfg b n reason w)) = greylisted_nodes w"
  "mock_check_counter (snd (handle_critical_failure cfg b n reason w)) = mock_check_counter w"
  by (simp_all add: handle_critical_failure_def provision_new_node_def
        add_node_to_raft_cluster_def remove_node_from_raft_cluster_def Let_def)

lemma find_node_config_None:
  "(find_node_config nid w = None) = (nid \<notin> ident ` set (current_nodes w))"
  by (auto simp: find_node_config_def find_None_iff)

lemma find_node_config_Some:
  "find_node_config nid w = Some n \<Longrightarrow> n \<in> set (current_nodes w) \<and> ident n = nid"
  by (auto simp: find_node_config_def find_Some_iff)

lemma predict_failure_frame:
  "snd (predict_failure cfg report llm w)
     = w\<lparr>mock_check_counter := mock_check_counter (snd (predict_failure cfg report llm w))\<rparr>"
  by (simp add: predict_failure_def predict_mock_def Let_def split: llm_outcome.splits)

lemma handle_greylist_expansion_result:
  assumes "handle_greylist_expansion cfg b n reason w = (r, w')"
  shows "current_nodes w' = current_nodes w \<and> greylisted_nodes w' = greylisted_nodes w"
  using handle_greylist_expansion_frame [of cfg b n reason w] assms by simp

lemma handle_critical_failure_result:
  assumes "handle_critical_failure cfg b n reason w = (r, w')"
  shows "current_nodes w' = current_nodes w \<and> greylisted_nodes w' = greylisted_nodes w"
  using handle_critical_failure_frame [of cfg b n reason w] assms by simp

lemma handle_warning_node_inv:
  assumes "greylist_inv w"
  shows "greylist_inv (handle_warning_node cfg b report reason w)"
proof (cases "find_node_config (node_id report) w")
  case None
  then show ?thesis using assms by (simp add: handle_warning_node_def)
next
  case (Some n)
  have n: "node_id report \<in> ident ` set (current_nodes w)"
    using find_node_config_Some [OF Some] by force
  show ?thesis
  proof (cases "node_id report \<in> greylisted_nodes w")
    case True
    then show ?thesis
      using assms Some by (simp add: handle_warning_node_def greylist_inv_def)
  next
    case False
    obtain r w2 where e: "handle_greylist_expansion cfg b n reason
        (w\<lparr>greylisted_nodes := insert (node_id report) (greylisted_nodes w)\<rparr>) = (r, w2)"
      by force
    have f: "current_nodes w2 = current_nodes w"
      "greylisted_nodes w2 = insert (node_id report) (greylisted_nodes w)"
      using handle_greylist_expansion_result [OF e] by simp_all
    have "greylist_inv w2" "\<And>x. greylist_inv (w2\<lparr>current_nodes := current_nodes w2 @ [x]\<rparr>)"
      using assms n f by (auto simp: greylist_inv_def)
    then show ?thesis
      using Some False e by (cases r) (simp_all add: handle_warning_node_def Let_def)
  qed
qed

lemma handle_critical_node_inv:
  assumes "greylist_inv w"
  shows "greylist_inv (handle_critical_node cfg b report reason w)"
proof (cases "find_node_config (node_id report) w")
  case None
  then show ?thesis using assms by (simp add: handle_critical_node_def)
next
  case (Some n)
  obtain r w1 where e: "handle_critical_failure cfg b n reason w = (r, w1)"
    by force
  have f: "current_nodes w1 = current_nodes w" "greylisted_nodes w1 = greylisted_nodes w"
    using handle_critical_failure_result [OF e] by simp_all
  have "greylist_inv w1"
    using assms f by (simp add: greylist_inv_def)
  moreover have "\<And>x. greylist_inv
      (w1\<lparr>current_nodes := filter (\<lambda>n. ident n \<noteq> node_id report) (current_nodes w1) @ [x],
          greylisted_nodes := greylisted_nodes w1 - {node_id report}\<rparr>)"
    using assms f by (fastforce simp: greylist_inv_def)
  ultimately show ?thesis
    using Some e by (cases r) (simp_all add: handle_critical_node_def Let_def)
qed

lemma predict_failure_inv:
  "greylist_inv w \<Longrightarrow> greylist_inv (snd (predict_failure cfg report llm w))"
  by (simp add: predict_failure_def predict_mock_def Let_def greylist_inv_def
      split: llm_outcome.splits)

lemma process_reports_inv:
  "greylist_inv w \<Longrightarrow> greylist_inv (snd (process_reports cfg inputs w))"
proof (induction inputs arbitrary: w)
  case Nil
  then show ?case by simp
next
  case (Cons x inputs)
  obtain report llm b where x: "x = (report, llm, b)" by (cases x)
  obtain p w1 where p: "predict_failure cfg report llm w = (p, w1)" by force
  have w1: "greylist_inv w1" using predict_failure_inv [OF Cons.prems, of cfg report llm] p by simp
  have rec: "greylist_inv (w1\<lparr>greylisted_nodes := greylisted_nodes w1 - {node_id report}\<rparr>)"
    using w1 by (auto simp: greylist_inv_def)
  show ?case
    using w1 rec Cons.IH handle_warning_node_inv handle_critical_node_inv
    by (cases p) (simp_all add: x p Let_def)
qed

section \<open>Unfolding the concrete inputs and the steps\<close>

lemmas ex_defs = quiet_metrics_def report_for_def live_config_def answers_def backend_at_def
  steady_env_def initial_world_def greylisted_world_def agent_init_def default_config_def

lemmas step_defs = handle_warning_node_def handle_critical_node_def find_node_config_def
  handle_greylist_expansion_def handle_critical_failure_def send_alert_def
  provision_new_node_def add_node_to_raft_cluster_def remove_node_from_raft_cluster_def
  new_node_address_def predict_failure_def predict_mock_def dict_get_def Let_def

section \<open>Claims\<close>

text \<open>
  C10. A report whose node is not among the current nodes is skipped by both handlers:
  with a critical or a warning severity, no alert is sent, no backend call is made, and
  the nodes, the greylist and the counters stay as they were.
\<close>

theorem missing_node_is_skipped:
  assumes "node_id report \<notin> ident ` set (current_nodes w)"
  shows "handle_critical_node cfg b report reason w = w
       \<and> handle_warning_node cfg b report reason w = w"
  using assms find_node_config_None [of "node_id report" w]
  by (simp add: handle_critical_node_def handle_warning_node_def)

theorem missing_node_is_skipped_witness:
  "node_id (report_for ''node-9'') \<notin> ident ` set (current_nodes greylisted_world)
   \<and> handle_critical_node live_config (backend_at 1700000000 False False False)
        (report_for ''node-9'') (JStr ''disk'') greylisted_world = greylisted_world
   \<and> handle_warning_node live_config (backend_at 1700000000 False False False)
        (report_for ''node-9'') (JStr ''disk'') greylisted_world = greylisted_world"
proof -
  have h: "node_id (report_for ''node-9'') \<notin> ident ` set (current_nodes greylisted_world)"
    by (simp add: ex_defs)
  show ?thesis
    using h missing_node_is_skipped [OF h, of live_config "backend_at 1700000000 False False False" "JStr ''disk''"]
    by simp
qed

text \<open>
  C1. The greylist is a subset of the identifiers of the current nodes: in the initial
  state, after any number of cycles from it, and after each handler, each run of the
  loop over any reports and each cycle started in a state where it holds.
\<close>

theorem greylist_subset_of_nodes:
  "greylist_inv (agent_init cfg)
   \<and> greylist_inv (run cfg envs (agent_init cfg))
   \<and> (greylist_inv w \<longrightarrow>
        greylist_inv (handle_warning_node cfg b report reason w)
      \<and> greylist_inv (handle_critical_node cfg b report reason w)
      \<and> greylist_inv (snd (process_reports cfg inputs w))
      \<and> greylist_inv (snd (run_check_cycle cfg env w)))"
proof -
  have init: "greylist_inv (agent_init cfg)"
    by (simp add: greylist_inv_def agent_init_def)
  have cycle: "greylist_inv (snd (run_check_cycle cfg e v))" if "greylist_inv v" for e v
    using that by (simp add: run_check_cycle_def process_reports_inv)
  have "greylist_inv (run cfg envs v)" if "greylist_inv v" for v
    using that by (induction envs arbitrary: v) (simp_all add: cycle)
  with init cycle show ?thesis
    by (simp add: handle_warning_node_inv handle_critical_node_inv process_reports_inv)
qed

theorem greylist_subset_of_nodes_witness:
  "greylist_inv greylisted_world
   \<and> greylist_inv (handle_warning_node live_config (backend_at 1700000000 False False False)
        (report_for ''node-1'') (JStr ''disk'') greylisted_world)
   \<and> greylist_inv (handle_critical_node live_config (backend_at 1700000000 False False False)
        (report_for ''node-2'') (JStr ''disk'') greylisted_world)
   \<and> greylist_inv (snd (process_reports live_config
        [(report_for ''node-2'', answers ''none'', backend_at 1700000000 False False False)]
        greylisted_world))
   \<and> greylist_inv (snd (run_check_cycle live_config steady_env greylisted_world))"
proof -
  have h: "greylist_inv greylisted_world"
    by (simp add: greylist_inv_def ex_defs)
  show ?thesis
    using h greylist_subset_of_nodes [of live_config "[]" greylisted_world
      "backend_at 1700000000 False False False" "report_for ''node-1''" "JStr ''disk''"
      "[(report_for ''node-2'', answers ''none'', backend_at 1700000000 False False False)]"
      steady_env]
      greylist_subset_of_nodes [of live_config "[]" greylisted_world
      "backend_at 1700000000 False False False" "report_for ''node-2''" "JStr ''disk''"
      "[]" steady_env]
    by simp
qed

lemma handle_critical_failure_early:
  assumes "provision_raises b \<or> add_peer_raises b"
  shows "fst (handle_critical_failure cfg b n reason w) = None"
    and "filter is_remove_peer (effects (snd (handle_critical_failure cfg b n reason w)))
         = filter is_remove_peer (effects w)"
  using assms
  by (auto simp: handle_critical_failure_def provision_new_node_def send_alert_def
      add_node_to_raft_cluster_def Let_def)

text \<open>
  C4. When provisioning the new node or joining it raises during a replacement, the
  healer reports failure (it returns no node), the failing node stays among the current
  nodes, the nodes and the greylist are unchanged, and no removal from the membership is
  requested.
\<close>

theorem replace_failure_keeps_node:
  assumes "find_node_config (node_id report) w = Some n"
    and "provision_raises b \<or> add_peer_raises b"
  shows "fst (handle_critical_failure cfg b n reason w) = None
       \<and> current_nodes (handle_critical_node cfg b report reason w) = current_nodes w
       \<and> greylisted_nodes (handle_critical_node cfg b report reason w) = greylisted_nodes w
       \<and> n \<in> set (current_nodes (handle_critical_node cfg b report reason w))
       \<and> filter is_remove_peer (effects (handle_critical_node cfg b report reason w))
           = filter is_remove_peer (effects w)"
proof -
  obtain w1 where e: "handle_critical_failure cfg b n reason w = (None, w1)"
    using handle_critical_failure_early(1) [OF assms(2), of cfg n reason w]
    by (cases "handle_critical_failure cfg b n reason w") simp
  have r: "handle_critical_node cfg b report reason w = w1"
    using assms(1) e by (simp add: handle_critical_node_def)
  have f: "current_nodes w1 = current_nodes w \<and> greylisted_nodes w1 = greylisted_nodes w"
    using handle_critical_failure_result [OF e] .
  have g: "filter is_remove_peer (effects w1) = filter is_remove_peer (effects w)"
    using handle_critical_failure_early(2) [OF assms(2), of cfg n reason w] e by simp
  show ?thesis
    using e r f g find_node_config_Some [OF assms(1)] by simp
qed

theorem replace_failure_keeps_node_witness:
  "find_node_config (node_id (report_for ''node-2'')) greylisted_world
     = Some \<lparr>ident = ''node-2'', address = ''192.168.1.102''\<rparr>
   \<and> add_peer_raises (backend_at 1700000000 False True False)
   \<and> fst (handle_critical_failure live_config (backend_at 1700000000 False True False)
        \<lparr>ident = ''node-2'', address = ''192.168.1.102''\<rparr> (JStr ''disk'') greylisted_world) = None
   \<and> current_nodes (handle_critical_node live_config (backend_at 1700000000 False True False)
        (report_for ''node-2'') (JStr ''disk'') greylisted_world) = current_nodes greylisted_world
   \<and> greylisted_nodes (handle_critical_node live_config (backend_at 1700000000 False True False)
        (report_for ''node-2'') (JStr ''disk'') greylisted_world) = {''node-2''}"
proof -
  have h1: "find_node_config (node_id (report_for ''node-2'')) greylisted_world
     = Some \<lparr>ident = ''node-2'', address = ''192.168.1.102''\<rparr>"
    by (simp add: ex_defs find_node_config_def)
  have h2: "provision_raises (backend_at 1700000000 False True False)
      \<or> add_peer_raises (backend_at 1700000000 False True False)"
    by (simp add: backend_at_def)
  have g: "greylisted_nodes greylisted_world = {''node-2''}"
    by (simp add: ex_defs)
  show ?thesis
    using h1 g replace_failure_keeps_node [OF h1 h2, of live_config "JStr ''disk''"]
    by (simp add: backend_at_def)
qed

text \<open>
  C5, as the claim states it, fails: when joining succeeds and the removal of the failing
  node raises, the new node has been joined to the membership (the \<open>AddPeer\<close> call is
  made), but it is not among the current nodes of the agent.
\<close>

theorem leave_failure_counterexample:
  "find_node_config (node_id (report_for ''node-1'')) initial_world
     = Some \<lparr>ident = ''node-1'', address = ''192.168.1.101''\<rparr>
   \<and> \<not> provision_raises (backend_at 1700000000 False False True)
   \<and> \<not> add_peer_raises (backend_at 1700000000 False False True)
   \<and> remove_peer_raises (backend_at 1700000000 False False True)
   \<and> effects (handle_critical_node live_config (backend_at 1700000000 False False True)
        (report_for ''node-1'') (JStr ''disk'') initial_world)
      = [Alert ''admin@distributedsystem.com'' ''node-1'' (JStr ''disk'') ''critical'' False,
         Provision, AddPeer ''192.168.1.201'', RemovePeer ''192.168.1.101'']
   \<and> \<lparr>ident = ''node-new-1700000000'', address = ''192.168.1.201''\<rparr>
        \<notin> set (current_nodes (handle_critical_node live_config
            (backend_at 1700000000 False False True) (report_for ''node-1'') (JStr ''disk'')
            initial_world))"
  by (simp add: ex_defs step_defs str_nat.simps)

text \<open>
  C5, amended. When provisioning and joining succeed and the removal of the failing node
  raises, the healer reports failure (it returns no node) and the agent changes neither
  its nodes nor its greylist: the failing node is still among the current nodes and the
  new node, although joined to the membership, is not added to them. Only the counter
  of new nodes and the effect log change.
\<close>

theorem leave_failure_keeps_state:
  assumes "find_node_config (node_id report) w = Some n"
    and "\<not> provision_raises b" and "\<not> add_peer_raises b" and "remove_peer_raises b"
  shows "fst (handle_critical_failure cfg b n reason w) = None
       \<and> handle_critical_node cfg b report reason w
           = w\<lparr>new_node_counter := new_node_counter w + 1,
               effects := effects (send_alert cfg (recipient_email cfg) (node_id report) reason
                   ''critical'' False w)
                 @ [Provision, AddPeer (new_node_address (new_node_counter w + 1)),
                    RemovePeer (address n)]\<rparr>
       \<and> current_nodes (handle_critical_node cfg b report reason w) = current_nodes w
       \<and> greylisted_nodes (handle_critical_node cfg b report reason w) = greylisted_nodes w
       \<and> n \<in> set (current_nodes (handle_critical_node cfg b report reason w))"
proof -
  have i: "ident n = node_id report" and m: "n \<in> set (current_nodes w)"
    using find_node_config_Some [OF assms(1)] by simp_all
  have e: "handle_critical_failure cfg b n reason w
      = (None, w\<lparr>new_node_counter := new_node_counter w + 1,
               effects := effects (send_alert cfg (recipient_email cfg) (node_id report) reason
                   ''critical'' False w)
                 @ [Provision, AddPeer (new_node_address (new_node_counter w + 1)),
                    RemovePeer (address n)]\<rparr>)"
    using assms(2-4) i
    by (simp add: handle_critical_failure_def provision_new_node_def send_alert_def
        add_node_to_raft_cluster_def remove_node_from_raft_cluster_def Let_def)
  show ?thesis
    using assms(1) e m by (simp add: handle_critical_node_def)
qed

theorem leave_failure_keeps_state_witness:
  "find_node_config (node_id (report_for ''node-1'')) initial_world
     = Some \<lparr>ident = ''node-1'', address = ''192.168.1.101''\<rparr>
   \<and> \<not> provision_raises (backend_at 1700000000 False False True)
   \<and> \<not> add_peer_raises (backend_at 1700000000 False False True)
   \<and> remove_peer_raises (backend_at 1700000000 False False True)
   \<and> fst (handle_critical_failure live_config (backend_at 1700000000 False False True)
        \<lparr>ident = ''node-1'', address = ''192.168.1.101''\<rparr> (JStr ''disk'') initial_world) = None
   \<and> current_nodes (handle_critical_node live_config (backend_at 1700000000 False False True)
        (report_for ''node-1'') (JStr ''disk'') initial_world) = current_nodes initial_world
   \<and> greylisted_nodes (handle_critical_node live_config (backend_at 1700000000 False False True)
        (report_for ''node-1'') (JStr ''disk'') initial_world) = {}"
proof -
  have h1: "find_node_config (node_id (report_for ''node-1'')) initial_world
     = Some \<lparr>ident = ''node-1'', address = ''192.168.1.101''\<rparr>"
    by (simp add: ex_defs find_node_config_def)
  have h2: "\<not> provision_raises (backend_at 1700000000 False False True)"
    and h3: "\<not> add_peer_raises (backend_at 1700000000 False False True)"
    and h4: "remove_peer_raises (backend_at 1700000000 False False True)"
    by (simp_all add: backend_at_def)
  have g: "greylisted_nodes initial_world = {}"
    by (simp add: ex_defs)
  show ?thesis
    using h1 h2 h3 h4 g leave_failure_keeps_state [OF h1 h2 h3 h4, of live_config "JStr ''disk''"]
    by simp
qed

text \<open>
  C3. When the node of a critical report is among the current nodes and provisioning,
  joining and removal all succeed, every entry with the failing identifier is dropped
  from the current nodes, the new node is appended, and the identifier leaves the
  greylist, whether or not it was greylisted. When the identifier of the new node
  differs from the failing one, the failing node is no longer a member and the new node
  is.
\<close>

theorem replace_success:
  assumes "find_node_config (node_id report) w = Some n"
    and "\<not> provision_raises b" and "\<not> add_peer_raises b" and "\<not> remove_peer_raises b"
  shows "current_nodes (handle_critical_node cfg b report reason w)
           = filter (\<lambda>m. ident m \<noteq> node_id report) (current_nodes w)
             @ [\<lparr>ident = ''node-new-'' @ str_nat (clock b),
                 address = new_node_address (new_node_counter w + 1)\<rparr>]
       \<and> greylisted_nodes (handle_critical_node cfg b report reason w)
           = greylisted_nodes w - {node_id report}
       \<and> node_id report \<notin> greylisted_nodes (handle_critical_node cfg b report reason w)
       \<and> \<lparr>ident = ''node-new-'' @ str_nat (clock b),
           address = new_node_address (new_node_counter w + 1)\<rparr>
           \<in> set (current_nodes (handle_critical_node cfg b report reason w))
       \<and> (''node-new-'' @ str_nat (clock b) \<noteq> node_id report \<longrightarrow>
            n \<notin> set (current_nodes (handle_critical_node cfg b report reason w))
          \<and> node_id report
              \<notin> ident ` set (current_nodes (handle_critical_node cfg b report reason w)))"
proof -
  define new_node where "new_node = \<lparr>ident = ''node-new-'' @ str_nat (clock b),
                address = new_node_address (new_node_counter w + 1)\<rparr>"
  define w1 where "w1 = w\<lparr>new_node_counter := new_node_counter w + 1,
               effects := effects (send_alert cfg (recipient_email cfg) (node_id report) reason
                   ''critical'' False w)
                 @ [Provision, AddPeer (new_node_address (new_node_counter w + 1)),
                    RemovePeer (address n)]\<rparr>"
  have i: "ident n = node_id report"
    using find_node_config_Some [OF assms(1)] by simp
  have e: "handle_critical_failure cfg b n reason w = (Some new_node, w1)"
    using assms(2-4) i unfolding new_node_def w1_def
    by (simp add: handle_critical_failure_def provision_new_node_def send_alert_def
        add_node_to_raft_cluster_def remove_node_from_raft_cluster_def Let_def)
  have r: "handle_critical_node cfg b report reason w
      = w1\<lparr>current_nodes :=
              filter (\<lambda>m. ident m \<noteq> node_id report) (current_nodes w1) @ [new_node],
            greylisted_nodes := greylisted_nodes w1 - {node_id report}\<rparr>"
    using assms(1) e by (simp add: handle_critical_node_def Let_def)
  have f: "current_nodes w1 = current_nodes w" "greylisted_nodes w1 = greylisted_nodes w"
    by (simp_all add: w1_def)
  have c: "current_nodes (handle_critical_node cfg b report reason w)
      = filter (\<lambda>m. ident m \<noteq> node_id report) (current_nodes w) @ [new_node]"
    and g: "greylisted_nodes (handle_critical_node cfg b report reason w)
      = greylisted_nodes w - {node_id report}"
    by (simp_all add: r f)
  have fresh: "n \<notin> set (current_nodes (handle_critical_node cfg b report reason w))
      \<and> node_id report
          \<notin> ident ` set (current_nodes (handle_critical_node cfg b report reason w))"
    if "ident new_node \<noteq> node_id report"
    using that i by (auto simp: c)
  have "ident new_node = ''node-new-'' @ str_nat (clock b)"
    by (simp add: new_node_def)
  with fresh c g show ?thesis
    unfolding new_node_def by simp
qed

theorem replace_success_witness:
  "find_node_config (node_id (report_for ''node-2'')) greylisted_world
     = Some \<lparr>ident = ''node-2'', address = ''192.168.1.102''\<rparr>
   \<and> \<not> provision_raises (backend_at 1700000000 False False False)
   \<and> \<not> add_peer_raises (backend_at 1700000000 False False False)
   \<and> \<not> remove_peer_raises (backend_at 1700000000 False False False)
   \<and> ''node-new-'' @ str_nat (clock (backend_at 1700000000 False False False))
        \<noteq> node_id (report_for ''node-2'')
   \<and> current_nodes (handle_critical_node live_config (backend_at 1700000000 False False False)
        (report_for ''node-2'') (JStr ''disk'') greylisted_world)
      = [\<lparr>ident = ''node-1'', address = ''192.168.1.101''\<rparr>,
         \<lparr>ident = ''node-3'', address = ''192.168.1.103''\<rparr>,
         \<lparr>ident = ''node-4-unstable'', address = ''192.168.1.104''\<rparr>,
         \<lparr>ident = ''node-new-1700000000'', address = ''192.168.1.201''\<rparr>]
   \<and> greylisted_nodes (handle_critical_node live_config (backend_at 1700000000 False False False)
        (report_for ''node-2'') (JStr ''disk'') greylisted_world) = {}
   \<and> ''node-2'' \<notin> ident ` set (current_nodes (handle_critical_node live_config
        (backend_at 1700000000 False False False) (report_for ''node-2'') (JStr ''disk'')
        greylisted_world))"
proof -
  have h1: "find_node_config (node_id (report_for ''node-2'')) greylisted_world
     = Some \<lparr>ident = ''node-2'', address = ''192.168.1.102''\<rparr>"
    by (simp add: ex_defs find_node_config_def)
  have h2: "\<not> provision_raises (backend_at 1700000000 False False False)"
    and h3: "\<not> add_peer_raises (backend_at 1700000000 False False False)"
    and h4: "\<not> remove_peer_raises (backend_at 1700000000 False False False)"
    by (simp_all add: backend_at_def)
  have h5: "''node-new-'' @ str_nat (clock (backend_at 1700000000 False False False))
        \<noteq> node_id (report_for ''node-2'')"
    by (simp add: ex_defs)
  have g: "current_nodes greylisted_world = cluster_nodes (default_config True)"
      "greylisted_nodes greylisted_world = {''node-2''}"
      "new_node_counter greylisted_world = 0"
      "node_id (report_for ''node-2'') = ''node-2''"
      "clock (backend_at 1700000000 False False False) = 1700000000"
    by (simp_all add: ex_defs)
  have s: "str_nat 1700000000 = ''1700000000''" "str_nat (Suc 0) = ''1''"
    by (simp_all add: str_nat.simps)
  show ?thesis
    using h1 h2 h3 h4 h5 replace_success [OF h1 h2 h3 h4, of live_config "JStr ''disk''"]
    by (simp add: g s new_node_address_def default_config_def)
qed

text \<open>
  C2, as the claim states it, fails: the agent adds the node to the greylist before it
  calls the healer, so when provisioning raises, the cycle ends with the node
  greylisted.
\<close>

theorem expand_failure_counterexample:
  "find_node_config (node_id (report_for ''node-1'')) initial_world
     = Some \<lparr>ident = ''node-1'', address = ''192.168.1.101''\<rparr>
   \<and> ''node-1'' \<notin> greylisted_nodes initial_world
   \<and> provision_raises (backend_at 1700000000 True False False)
   \<and> process_reports live_config
        [(report_for ''node-1'', answers ''warning'', backend_at 1700000000 True False False)]
        initial_world
      = (None, initial_world\<lparr>greylisted_nodes := {''node-1''}, new_node_counter := 1,
           effects := [Alert ''admin@distributedsystem.com'' ''node-1'' (JStr ''disk'')
                         ''warning'' False, Provision]\<rparr>)
   \<and> greylisted_nodes (handle_warning_node live_config
          (backend_at 1700000000 True False False) (report_for ''node-1'') (JStr ''disk'')
          initial_world)
      \<noteq> greylisted_nodes initial_world"
  by (simp add: ex_defs step_defs)

lemma handle_greylist_expansion_early:
  assumes "provision_raises b \<or> add_peer_raises b"
  shows "fst (handle_greylist_expansion cfg b n reason w) = None"
  using assms
  by (auto simp: handle_greylist_expansion_def provision_new_node_def
      add_node_to_raft_cluster_def Let_def)

text \<open>
  C2, amended. When a warning arrives for a node that is among the current nodes and not
  greylisted, and provisioning or joining the new node raises, the current nodes are
  unchanged and the node is added to the greylist. A warning for the node that follows
  directly, and any later warning handled while the node is still greylisted and still
  among the current nodes, is answered with a follow-up alert only, not with a new
  expansion.
\<close>

theorem expand_failure_greylists:
  assumes "find_node_config (node_id report) w = Some n"
    and "node_id report \<notin> greylisted_nodes w"
    and "provision_raises b \<or> add_peer_raises b"
  shows "current_nodes (handle_warning_node cfg b report reason w) = current_nodes w
       \<and> greylisted_nodes (handle_warning_node cfg b report reason w)
           = insert (node_id report) (greylisted_nodes w)
       \<and> handle_warning_node cfg b' report reason' (handle_warning_node cfg b report reason w)
           = send_alert cfg (recipient_email cfg) (node_id report) reason' ''warning'' True
               (handle_warning_node cfg b report reason w)
       \<and> (node_id report \<in> greylisted_nodes v
            \<and> node_id report \<in> ident ` set (current_nodes v) \<longrightarrow>
          handle_warning_node cfg b' report reason' v
            = send_alert cfg (recipient_email cfg) (node_id report) reason' ''warning'' True v)"
proof -
  define w0 where "w0 = w\<lparr>greylisted_nodes := insert (node_id report) (greylisted_nodes w)\<rparr>"
  obtain w2 where e: "handle_greylist_expansion cfg b n reason w0 = (None, w2)"
    using handle_greylist_expansion_early [OF assms(3), of cfg n reason w0]
    by (cases "handle_greylist_expansion cfg b n reason w0") simp
  have r: "handle_warning_node cfg b report reason w = w2"
    using assms(1,2) e by (simp add: handle_warning_node_def Let_def w0_def)
  have f: "current_nodes w2 = current_nodes w"
    "greylisted_nodes w2 = insert (node_id report) (greylisted_nodes w)"
    using handle_greylist_expansion_result [OF e] by (simp_all add: w0_def)
  have "find_node_config (node_id report) w2 = Some n"
    using assms(1) f(1) by (simp add: find_node_config_def)
  then have "handle_warning_node cfg b' report reason' w2
      = send_alert cfg (recipient_email cfg) (node_id report) reason' ''warning'' True w2"
    using f(2) by (simp add: handle_warning_node_def Let_def)
  moreover have "handle_warning_node cfg b' report reason' v
      = send_alert cfg (recipient_email cfg) (node_id report) reason' ''warning'' True v"
    if grey: "node_id report \<in> greylisted_nodes v"
      and member: "node_id report \<in> ident ` set (current_nodes v)"
  proof -
    obtain m where "find_node_config (node_id report) v = Some m"
      using member find_node_config_None [of "node_id report" v] by auto
    then show ?thesis
      using grey by (simp add: handle_warning_node_def Let_def)
  qed
  ultimately show ?thesis
    using r f by simp
qed

theorem expand_failure_greylists_witness:
  "find_node_config (node_id (report_for ''node-1'')) initial_world
     = Some \<lparr>ident = ''node-1'', address = ''192.168.1.101''\<rparr>
   \<and> node_id (report_for ''node-1'') \<notin> greylisted_nodes initial_world
   \<and> provision_raises (backend_at 1700000000 True False False)
   \<and> current_nodes (handle_warning_node live_config (backend_at 1700000000 True False False)
        (report_for ''node-1'') (JStr ''disk'') initial_world) = current_nodes initial_world
   \<and> greylisted_nodes (handle_warning_node live_config (backend_at 1700000000 True False False)
        (report_for ''node-1'') (JStr ''disk'') initial_world) = {''node-1''}
   \<and> node_id (report_for ''node-1'') \<in> greylisted_nodes still_greylisted_world
   \<and> node_id (report_for ''node-1'') \<in> ident ` set (current_nodes still_greylisted_world)
   \<and> handle_warning_node live_config (backend_at 1700000060 False False False)
        (report_for ''node-1'') (JStr ''again'') still_greylisted_world
      = still_greylisted_world\<lparr>effects :=
          [Alert ''admin@distributedsystem.com'' ''node-1'' (JStr ''again'') ''warning'' True]\<rparr>"
proof -
  have h1: "find_node_config (node_id (report_for ''node-1'')) initial_world
     = Some \<lparr>ident = ''node-1'', address = ''192.168.1.101''\<rparr>"
    by (simp add: ex_defs find_node_config_def)
  have h2: "node_id (report_for ''node-1'') \<notin> greylisted_nodes initial_world"
    by (simp add: ex_defs)
  have h3: "provision_raises (backend_at 1700000000 True False False)
      \<or> add_peer_raises (backend_at 1700000000 True False False)"
    by (simp add: backend_at_def)
  have h4: "node_id (report_for ''node-1'') \<in> greylisted_nodes still_greylisted_world"
    and h5: "node_id (report_for ''node-1'')
        \<in> ident ` set (current_nodes still_greylisted_world)"
    by (simp_all add: ex_defs still_greylisted_world_def)
  have g: "greylisted_nodes initial_world = {}" "node_id (report_for ''node-1'') = ''node-1''"
    by (simp_all add: ex_defs)
  have a: "send_alert live_config (recipient_email live_config) ''node-1'' (JStr ''again'')
        ''warning'' True still_greylisted_world
      = still_greylisted_world\<lparr>effects :=
          [Alert ''admin@distributedsystem.com'' ''node-1'' (JStr ''again'') ''warning'' True]\<rparr>"
    by (simp add: send_alert_def ex_defs still_greylisted_world_def)
  show ?thesis
    using h1 h2 h4 h5
      expand_failure_greylists [OF h1 h2 h3, of live_config "JStr ''disk''"
        "backend_at 1700000060 False False False" "JStr ''again''" still_greylisted_world]
    by (simp add: g a backend_at_def)
qed

text \<open>
  C6. A warning for a greylisted node, in a state where the greylist is a subset of the
  node identifiers, only sends the follow-up alert (when alerting is enabled): the
  handler changes nothing but the effect log, and the loop goes on to the next report
  with the nodes and the greylist as they were. No provisioning, join or leave call is
  logged.
\<close>

theorem greylisted_warning_realerts:
  assumes "node_id report \<in> greylisted_nodes w" and "greylist_inv w"
  shows "handle_warning_node cfg b report reason w
           = w\<lparr>effects := effects w @
                 (if alerting_enabled cfg
                  then [Alert (recipient_email cfg) (node_id report) reason ''warning'' True]
                  else [])\<rparr>
       \<and> (predict_failure cfg report llm w = (JObj d, w1)
            \<and> dict_get d ''severity'' (JStr ''none'') = JStr ''warning'' \<longrightarrow>
          process_reports cfg ((report, llm, b) # rest) w
            = process_reports cfg rest
                (w1\<lparr>effects := effects w @
                   (if alerting_enabled cfg
                    then [Alert (recipient_email cfg) (node_id report)
                            (dict_get d ''reason'' (JStr ''No reason provided.'')) ''warning'' True]
                    else [])\<rparr>)
          \<and> current_nodes w1 = current_nodes w
          \<and> greylisted_nodes w1 = greylisted_nodes w)"
proof -
  have found: "find_node_config (node_id report) v \<noteq> None"
    if "node_id report \<in> greylisted_nodes v" "greylist_inv v" for v
    using that find_node_config_None [of "node_id report" v] by (auto simp: greylist_inv_def)
  have h: "handle_warning_node cfg b report r v
           = v\<lparr>effects := effects v @
                 (if alerting_enabled cfg
                  then [Alert (recipient_email cfg) (node_id report) r ''warning'' True]
                  else [])\<rparr>"
    if "node_id report \<in> greylisted_nodes v" "greylist_inv v" for v r
    using that found [OF that]
    by (auto simp: handle_warning_node_def Let_def send_alert_def)
  have step: "process_reports cfg ((report, llm, b) # rest) w
            = process_reports cfg rest
                (w1\<lparr>effects := effects w @
                   (if alerting_enabled cfg
                    then [Alert (recipient_email cfg) (node_id report)
                            (dict_get d ''reason'' (JStr ''No reason provided.'')) ''warning'' True]
                    else [])\<rparr>)
          \<and> current_nodes w1 = current_nodes w
          \<and> greylisted_nodes w1 = greylisted_nodes w"
    if p: "predict_failure cfg report llm w = (JObj d, w1)"
      and s: "dict_get d ''severity'' (JStr ''none'') = JStr ''warning''"
  proof -
    have w1: "w1 = w\<lparr>mock_check_counter := mock_check_counter w1\<rparr>"
      using predict_failure_frame [of cfg report llm w] p by simp
    have f: "current_nodes w1 = current_nodes w" "greylisted_nodes w1 = greylisted_nodes w"
      "effects w1 = effects w"
      by (subst w1, simp)+
    have "greylist_inv w1" "node_id report \<in> greylisted_nodes w1"
      using assms f by (simp_all add: greylist_inv_def)
    from h [OF this(2,1)] show ?thesis
      using p s f by (simp add: Let_def)
  qed
  show ?thesis
    using h [OF assms] step by blast
qed

theorem greylisted_warning_realerts_witness:
  "node_id (report_for ''node-2'') \<in> greylisted_nodes greylisted_world
   \<and> greylist_inv greylisted_world
   \<and> predict_failure live_config (report_for ''node-2'') (answers ''warning'') greylisted_world
       = (JObj [(''severity'', JStr ''warning''), (''reason'', JStr ''disk'')], greylisted_world)
   \<and> dict_get [(''severity'', JStr ''warning''), (''reason'', JStr ''disk'')] ''severity''
        (JStr ''none'') = JStr ''warning''
   \<and> handle_warning_node live_config (backend_at 1700000000 False False False)
        (report_for ''node-2'') (JStr ''disk'') greylisted_world
       = greylisted_world\<lparr>effects :=
           [Alert ''admin@distributedsystem.com'' ''node-2'' (JStr ''disk'') ''warning'' True]\<rparr>
   \<and> process_reports live_config
        [(report_for ''node-2'', answers ''warning'', backend_at 1700000000 False False False)]
        greylisted_world
       = (None, greylisted_world\<lparr>effects :=
           [Alert ''admin@distributedsystem.com'' ''node-2'' (JStr ''disk'') ''warning'' True]\<rparr>)"
proof -
  have h1: "node_id (report_for ''node-2'') \<in> greylisted_nodes greylisted_world"
    by (simp add: ex_defs)
  have h2: "greylist_inv greylisted_world"
    by (simp add: greylist_inv_def ex_defs)
  have h3: "predict_failure live_config (report_for ''node-2'') (answers ''warning'')
      greylisted_world
       = (JObj [(''severity'', JStr ''warning''), (''reason'', JStr ''disk'')], greylisted_world)"
    by (simp add: predict_failure_def live_config_def default_config_def answers_def)
  have h4: "dict_get [(''severity'', JStr ''warning''), (''reason'', JStr ''disk'')] ''severity''
        (JStr ''none'') = JStr ''warning''"
    by (simp add: dict_get_def)
  have g: "effects greylisted_world = []" "alerting_enabled live_config"
    "recipient_email live_config = ''admin@distributedsystem.com''"
    "node_id (report_for ''node-2'') = ''node-2''"
    "dict_get [(''severity'', JStr ''warning''), (''reason'', JStr ''disk'')] ''reason''
        (JStr ''No reason provided.'') = JStr ''disk''"
    by (simp_all add: ex_defs dict_get_def)
  show ?thesis
    using h1 h2 h3 h4
      greylisted_warning_realerts [OF h1 h2, of live_config
        "backend_at 1700000000 False False False" "JStr ''disk''" "answers ''warning''"
        "[(''severity'', JStr ''warning''), (''reason'', JStr ''disk'')]" greylisted_world "[]"]
    by (simp add: g)
qed

text \<open>
  C7. A report whose severity is neither critical nor warning (so also \<open>none\<close>) takes the
  node out of the greylist and changes nothing else but the counter of the mock
  predictor: the nodes and the effect log are as before, so no alert is sent and no
  backend call is made. For a node that is not greylisted only that counter can differ.
\<close>

theorem healthy_node_recovers:
  assumes "predict_failure cfg report llm w = (JObj d, w1)"
    and "dict_get d ''severity'' (JStr ''none'') \<noteq> JStr ''critical''"
    and "dict_get d ''severity'' (JStr ''none'') \<noteq> JStr ''warning''"
  shows "process_reports cfg ((report, llm, b) # rest) w
           = process_reports cfg rest
               (w\<lparr>greylisted_nodes := greylisted_nodes w - {node_id report},
                  mock_check_counter := mock_check_counter w1\<rparr>)
       \<and> (node_id report \<notin> greylisted_nodes w \<longrightarrow>
            process_reports cfg ((report, llm, b) # rest) w
              = process_reports cfg rest (w\<lparr>mock_check_counter := mock_check_counter w1\<rparr>))"
proof -
  have w1: "w1 = w\<lparr>mock_check_counter := mock_check_counter w1\<rparr>"
    using predict_failure_frame [of cfg report llm w] assms(1) by simp
  have g: "greylisted_nodes w1 = greylisted_nodes w"
    by (subst w1) simp
  have u: "w1\<lparr>greylisted_nodes := greylisted_nodes w - {node_id report}\<rparr>
      = w\<lparr>greylisted_nodes := greylisted_nodes w - {node_id report},
           mock_check_counter := mock_check_counter w1\<rparr>"
    by (subst w1) simp
  have s: "process_reports cfg ((report, llm, b) # rest) w
      = process_reports cfg rest
          (if node_id report \<in> greylisted_nodes w1
           then w1\<lparr>greylisted_nodes := greylisted_nodes w1 - {node_id report}\<rparr> else w1)"
    using assms by (simp add: Let_def)
  have n: "w1\<lparr>greylisted_nodes := greylisted_nodes w - {node_id report}\<rparr> = w1"
    if "node_id report \<notin> greylisted_nodes w"
    using that g by simp
  show ?thesis
  proof (cases "node_id report \<in> greylisted_nodes w")
    case True
    then show ?thesis using s g u by simp
  next
    case False
    then show ?thesis using s g u n w1 by metis
  qed
qed

theorem healthy_node_recovers_witness:
  "predict_failure live_config (report_for ''node-2'') (answers ''none'') greylisted_world
       = (JObj [(''severity'', JStr ''none''), (''reason'', JStr ''disk'')], greylisted_world)
   \<and> predict_failure live_config (report_for ''node-1'') (answers ''none'') greylisted_world
       = (JObj [(''severity'', JStr ''none''), (''reason'', JStr ''disk'')], greylisted_world)
   \<and> dict_get [(''severity'', JStr ''none''), (''reason'', JStr ''disk'')] ''severity''
        (JStr ''none'') \<noteq> JStr ''critical''
   \<and> dict_get [(''severity'', JStr ''none''), (''reason'', JStr ''disk'')] ''severity''
        (JStr ''none'') \<noteq> JStr ''warning''
   \<and> node_id (report_for ''node-1'') \<notin> greylisted_nodes greylisted_world
   \<and> process_reports live_config
        [(report_for ''node-2'', answers ''none'', backend_at 1700000000 False False False)]
        greylisted_world
       = (None, greylisted_world\<lparr>greylisted_nodes := {}\<rparr>)
   \<and> process_reports live_config
        [(report_for ''node-1'', answers ''none'', backend_at 1700000000 False False False)]
        greylisted_world
       = (None, greylisted_world)"
proof -
  have h1: "predict_failure live_config (report_for ''node-2'') (answers ''none'')
      greylisted_world
       = (JObj [(''severity'', JStr ''none''), (''reason'', JStr ''disk'')], greylisted_world)"
    and h1': "predict_failure live_config (report_for ''node-1'') (answers ''none'')
      greylisted_world
       = (JObj [(''severity'', JStr ''none''), (''reason'', JStr ''disk'')], greylisted_world)"
    by (simp_all add: predict_failure_def live_config_def default_config_def answers_def)
  have h2: "dict_get [(''severity'', JStr ''none''), (''reason'', JStr ''disk'')] ''severity''
        (JStr ''none'') \<noteq> JStr ''critical''"
    and h3: "dict_get [(''severity'', JStr ''none''), (''reason'', JStr ''disk'')] ''severity''
        (JStr ''none'') \<noteq> JStr ''warning''"
    by (simp_all add: dict_get_def)
  have h4: "node_id (report_for ''node-1'') \<notin> greylisted_nodes greylisted_world"
    by (simp add: ex_defs)
  have g: "greylisted_nodes greylisted_world - {node_id (report_for ''node-2'')} = {}"
    by (simp add: ex_defs)
  show ?thesis
    using h1 h1' h2 h3 h4
      healthy_node_recovers [OF h1 h2 h3, of "backend_at 1700000000 False False False" "[]"]
      healthy_node_recovers [OF h1' h2 h3, of "backend_at 1700000000 False False False" "[]"]
    by (simp add: g)
qed

text \<open>
  The failures that the predictor catches. With the mock predictor off and the client
  library present, a request that raises any exception, or whose answer is not JSON,
  yields a prediction of severity \<open>none\<close> and leaves the state alone; the loop treats
  the node as healthy (it leaves the greylist), raises nothing, and goes on with the
  remaining reports.
\<close>

lemma caught_failure_is_none:
  assumes "\<not> use_mock cfg" and "openai_available cfg"
    and "llm = Raises e \<or> llm = InvalidJSON"
  shows "(\<exists>d. predict_failure cfg report llm w = (JObj d, w)
            \<and> dict_get d ''severity'' (JStr ''none'') = JStr ''none'')
       \<and> process_reports cfg ((report, llm, b) # rest) w
           = process_reports cfg rest
               (w\<lparr>greylisted_nodes := greylisted_nodes w - {node_id report}\<rparr>)
       \<and> process_reports cfg [(report, llm, b)] w
           = (None, w\<lparr>greylisted_nodes := greylisted_nodes w - {node_id report}\<rparr>)"
proof -
  obtain r where p: "predict_failure cfg report llm w
      = (JObj [(''severity'', JStr ''none''), (''reason'', JStr r)], w)"
    using assms by (auto simp: predict_failure_def)
  have s: "dict_get [(''severity'', JStr ''none''), (''reason'', JStr r)] ''severity''
      (JStr ''none'') = JStr ''none''"
    by (simp add: dict_get_def)
  have n: "w\<lparr>greylisted_nodes := greylisted_nodes w - {node_id report}\<rparr> = w"
    if "node_id report \<notin> greylisted_nodes w"
    using that by simp
  have step: "process_reports cfg ((report, llm, b) # xs) w
           = process_reports cfg xs
               (w\<lparr>greylisted_nodes := greylisted_nodes w - {node_id report}\<rparr>)" for xs
    using p s n by (simp add: Let_def)
  show ?thesis
    using p s step [of rest] step [of "[]"] by simp
qed

lemma caught_failure_is_none_example:
  "\<not> use_mock live_config \<and> openai_available live_config
   \<and> predict_failure live_config (report_for ''node-2'') (Raises RateLimitError) greylisted_world
       = (JObj [(''severity'', JStr ''none''),
                (''reason'', JStr ''Prediction failed due to an API error.'')], greylisted_world)
   \<and> process_reports live_config
        [(report_for ''node-2'', Raises RateLimitError, backend_at 1700000000 False False False)]
        greylisted_world
       = (None, greylisted_world\<lparr>greylisted_nodes := {}\<rparr>)"
proof -
  have h1: "\<not> use_mock live_config" and h2: "openai_available live_config"
    by (simp_all add: live_config_def default_config_def)
  have h3: "Raises RateLimitError = Raises RateLimitError \<or> Raises RateLimitError = InvalidJSON"
    by simp
  have g: "greylisted_nodes greylisted_world - {node_id (report_for ''node-2'')} = {}"
    by (simp add: ex_defs)
  have p: "predict_failure live_config (report_for ''node-2'') (Raises RateLimitError)
      greylisted_world
       = (JObj [(''severity'', JStr ''none''),
                (''reason'', JStr ''Prediction failed due to an API error.'')], greylisted_world)"
    by (simp add: predict_failure_def h1 h2)
  have "process_reports live_config
        [(report_for ''node-2'', Raises RateLimitError, backend_at 1700000000 False False False)]
        greylisted_world
       = (None, greylisted_world\<lparr>greylisted_nodes :=
            greylisted_nodes greylisted_world - {node_id (report_for ''node-2'')}\<rparr>)"
    using caught_failure_is_none [OF h1 h2 h3, of "report_for ''node-2''"
        greylisted_world "backend_at 1700000000 False False False" "[]"]
    by blast
  then have "process_reports live_config
        [(report_for ''node-2'', Raises RateLimitError, backend_at 1700000000 False False False)]
        greylisted_world
       = (None, greylisted_world\<lparr>greylisted_nodes := {}\<rparr>)"
    by (simp only: g)
  with h1 h2 p show ?thesis
    by blast
qed

text \<open>
  C9 does not hold of the code for a malformed answer that is valid JSON but not an
  object. The predictor, whose documentation promises a dictionary, returns the decoded
  value as it is; the agent then asks it for \<^verbatim>\<open>severity\<close> and the cycle ends with an
  \<open>AttributeError\<close>. The node is not handled as \<open>none\<close> (it stays greylisted) and the
  reports after it are not looked at, whereas an answer that is not JSON at all is
  handled as \<open>none\<close> and the loop goes on.
\<close>

theorem non_object_answer_aborts_cycle:
  "\<not> use_mock live_config \<and> openai_available live_config
   \<and> predict_failure live_config (report_for ''node-2'') (Decoded (JArr [])) greylisted_world
       = (JArr [], greylisted_world)
   \<and> process_reports live_config
        [(report_for ''node-2'', Decoded (JArr []), backend_at 1700000000 False False False),
         (report_for ''node-3'', answers ''warning'', backend_at 1700000000 False False False)]
        greylisted_world
       = (Some AttributeError, greylisted_world)
   \<and> ''node-2'' \<in> greylisted_nodes greylisted_world
   \<and> fst (process_reports live_config
        [(report_for ''node-2'', InvalidJSON, backend_at 1700000000 False False False),
         (report_for ''node-3'', answers ''warning'', backend_at 1700000000 False False False)]
        greylisted_world) = None
   \<and> greylisted_nodes (snd (process_reports live_config
        [(report_for ''node-2'', InvalidJSON, backend_at 1700000000 False False False),
         (report_for ''node-3'', answers ''warning'', backend_at 1700000000 False False False)]
        greylisted_world)) = {''node-3''}"
  by (simp add: ex_defs step_defs)

lemma process_reports_append:
  "(\<forall>ys. process_reports cfg (pre @ ys) w = process_reports cfg pre w)
   \<or> (\<forall>ys. process_reports cfg (pre @ ys) w
          = process_reports cfg ys (snd (process_reports cfg pre w)))"
proof (induction pre arbitrary: w)
  case Nil
  then show ?case by simp
next
  case (Cons x pre)
  obtain report llm b where x: "x = (report, llm, b)" by (cases x)
  obtain p w1 where p: "predict_failure cfg report llm w = (p, w1)" by force
  show ?case
  proof (cases p)
    case (JObj d)
    show ?thesis
      using Cons.IH [of "handle_warning_node cfg b report
              (dict_get d ''reason'' (JStr ''No reason provided.'')) w1"]
        Cons.IH [of "w1\<lparr>greylisted_nodes := greylisted_nodes w1 - {node_id report}\<rparr>"]
        Cons.IH [of w1]
      by (simp add: x p JObj Let_def)
  qed (simp_all add: x p)
qed

lemma send_alert_counts:
  "filter is_remove_peer (effects (send_alert cfg r n rs s f w))
     = filter is_remove_peer (effects w)"
  "filter is_critical_alert (effects (send_alert cfg r n rs ''warning'' f w))
     = filter is_critical_alert (effects w)"
  "length (filter is_critical_alert (effects (send_alert cfg r n rs s f w)))
     \<le> Suc (length (filter is_critical_alert (effects w)))"
  by (simp_all add: send_alert_def)

lemma handle_warning_node_counts:
  "filter is_remove_peer (effects (handle_warning_node cfg b report reason w))
     = filter is_remove_peer (effects w)"
  "filter is_critical_alert (effects (handle_warning_node cfg b report reason w))
     = filter is_critical_alert (effects w)"
  by (simp_all add: handle_warning_node_def handle_greylist_expansion_def
      provision_new_node_def add_node_to_raft_cluster_def send_alert_def Let_def
      split: option.splits)

lemma handle_critical_node_counts:
  "length (filter is_remove_peer (effects (handle_critical_node cfg b report reason w)))
     \<le> Suc (length (filter is_remove_peer (effects w)))"
  "length (filter is_critical_alert (effects (handle_critical_node cfg b report reason w)))
     \<le> Suc (length (filter is_critical_alert (effects w)))"
  by (simp_all add: handle_critical_node_def handle_critical_failure_def
      provision_new_node_def add_node_to_raft_cluster_def remove_node_from_raft_cluster_def
      send_alert_def Let_def split: option.splits)

lemma predict_failure_effects:
  "effects (snd (predict_failure cfg report llm w)) = effects w"
  by (simp add: predict_failure_def predict_mock_def Let_def split: llm_outcome.splits)

lemma process_reports_counts:
  "length (filter is_remove_peer (effects (snd (process_reports cfg inputs w))))
     \<le> Suc (length (filter is_remove_peer (effects w)))
   \<and> length (filter is_critical_alert (effects (snd (process_reports cfg inputs w))))
     \<le> Suc (length (filter is_critical_alert (effects w)))"
proof (induction inputs arbitrary: w)
  case Nil
  then show ?case by simp
next
  case (Cons x inputs)
  obtain report llm b where x: "x = (report, llm, b)" by (cases x)
  obtain p w1 where p: "predict_failure cfg report llm w = (p, w1)" by force
  have e: "effects w1 = effects w"
    using predict_failure_effects [of cfg report llm w] p by simp
  show ?case
  proof (cases p)
    case (JObj d)
    show ?thesis
      using Cons.IH [of "handle_warning_node cfg b report
              (dict_get d ''reason'' (JStr ''No reason provided.'')) w1"]
        Cons.IH [of "w1\<lparr>greylisted_nodes := greylisted_nodes w1 - {node_id report}\<rparr>"]
        Cons.IH [of w1]
        handle_critical_node_counts [of cfg b report
              "dict_get d ''reason'' (JStr ''No reason provided.'')" w1]
      by (simp add: x p JObj Let_def e handle_warning_node_counts)
  qed (simp_all add: x p e)
qed

text \<open>
  C8. When a report, met after the reports before it, is classified critical, the loop
  ends with it: the reports after it change nothing, neither the state nor the
  predictor's counter nor the effect log, so they are not evaluated in this cycle. And
  over any reports, one run of the loop and one cycle send at most one critical alert
  and request at most one removal from the membership.
\<close>

theorem critical_stops_cycle:
  "(predict_failure cfg report llm (snd (process_reports cfg pre w)) = (JObj d, w1)
      \<and> dict_get d ''severity'' (JStr ''none'') = JStr ''critical'' \<longrightarrow>
    process_reports cfg (pre @ (report, llm, b) # rest) w
      = process_reports cfg (pre @ [(report, llm, b)]) w)
   \<and> length (filter is_critical_alert (effects (snd (process_reports cfg inputs w))))
       \<le> length (filter is_critical_alert (effects w)) + 1
   \<and> length (filter is_remove_peer (effects (snd (process_reports cfg inputs w))))
       \<le> length (filter is_remove_peer (effects w)) + 1
   \<and> length (filter is_critical_alert (effects (snd (run_check_cycle cfg env w))))
       \<le> length (filter is_critical_alert (effects w)) + 1
   \<and> length (filter is_remove_peer (effects (snd (run_check_cycle cfg env w))))
       \<le> length (filter is_remove_peer (effects w)) + 1"
proof -
  have stop: "process_reports cfg (pre @ (report, llm, b) # rest) w
      = process_reports cfg (pre @ [(report, llm, b)]) w"
    if p: "predict_failure cfg report llm (snd (process_reports cfg pre w)) = (JObj d, w1)"
      and s: "dict_get d ''severity'' (JStr ''none'') = JStr ''critical''"
  proof -
    have here: "process_reports cfg ((report, llm, b) # ys) (snd (process_reports cfg pre w))
        = (None, handle_critical_node cfg b report
            (dict_get d ''reason'' (JStr ''No reason provided.'')) w1)" for ys
      using p s by (simp add: Let_def)
    from process_reports_append [of cfg pre w] show ?thesis
    proof
      assume "\<forall>ys. process_reports cfg (pre @ ys) w = process_reports cfg pre w"
      then show ?thesis by simp
    next
      assume "\<forall>ys. process_reports cfg (pre @ ys) w
          = process_reports cfg ys (snd (process_reports cfg pre w))"
      then show ?thesis using here by simp
    qed
  qed
  show ?thesis
    using stop process_reports_counts [of cfg inputs w]
    by (simp add: run_check_cycle_def process_reports_counts)
qed

theorem critical_stops_cycle_witness:
  "predict_failure live_config (report_for ''node-1'') (answers ''critical'')
      (snd (process_reports live_config
         [(report_for ''node-2'', answers ''none'', backend_at 1700000000 False False False)]
         greylisted_world))
     = (JObj [(''severity'', JStr ''critical''), (''reason'', JStr ''disk'')],
        greylisted_world\<lparr>greylisted_nodes := {}\<rparr>)
   \<and> dict_get [(''severity'', JStr ''critical''), (''reason'', JStr ''disk'')] ''severity''
        (JStr ''none'') = JStr ''critical''
   \<and> process_reports live_config
        ([(report_for ''node-2'', answers ''none'', backend_at 1700000000 False False False)]
         @ (report_for ''node-1'', answers ''critical'', backend_at 1700000000 False False False)
         # [(report_for ''node-3'', answers ''critical'',
              backend_at 1700000003 False False False)])
        greylisted_world
     = process_reports live_config
        ([(report_for ''node-2'', answers ''none'', backend_at 1700000000 False False False)]
         @ [(report_for ''node-1'', answers ''critical'',
               backend_at 1700000000 False False False)])
        greylisted_world
   \<and> current_nodes (snd (process_reports live_config
        ([(report_for ''node-2'', answers ''none'', backend_at 1700000000 False False False)]
         @ [(report_for ''node-1'', answers ''critical'',
               backend_at 1700000000 False False False)])
        greylisted_world))
     = [\<lparr>ident = ''node-2'', address = ''192.168.1.102''\<rparr>,
        \<lparr>ident = ''node-3'', address = ''192.168.1.103''\<rparr>,
        \<lparr>ident = ''node-4-unstable'', address = ''192.168.1.104''\<rparr>,
        \<lparr>ident = ''node-new-1700000000'', address = ''192.168.1.201''\<rparr>]"
proof -
  have h1: "predict_failure live_config (report_for ''node-1'') (answers ''critical'')
      (snd (process_reports live_config
         [(report_for ''node-2'', answers ''none'', backend_at 1700000000 False False False)]
         greylisted_world))
     = (JObj [(''severity'', JStr ''critical''), (''reason'', JStr ''disk'')],
        greylisted_world\<lparr>greylisted_nodes := {}\<rparr>)"
    by (simp add: ex_defs step_defs)
  have h2: "dict_get [(''severity'', JStr ''critical''), (''reason'', JStr ''disk'')]
        ''severity'' (JStr ''none'') = JStr ''critical''"
    by (simp add: dict_get_def)
  have c: "process_reports live_config
        ([(report_for ''node-2'', answers ''none'', backend_at 1700000000 False False False)]
         @ (report_for ''node-1'', answers ''critical'', backend_at 1700000000 False False False)
         # [(report_for ''node-3'', answers ''critical'',
              backend_at 1700000003 False False False)])
        greylisted_world
     = process_reports live_config
        ([(report_for ''node-2'', answers ''none'', backend_at 1700000000 False False False)]
         @ [(report_for ''node-1'', answers ''critical'',
               backend_at 1700000000 False False False)])
        greylisted_world"
    using h1 h2 critical_stops_cycle [of live_config "report_for ''node-1''"
        "answers ''critical''"
        "[(report_for ''node-2'', answers ''none'', backend_at 1700000000 False False False)]"
        greylisted_world "[(''severity'', JStr ''critical''), (''reason'', JStr ''disk'')]"
        "greylisted_world\<lparr>greylisted_nodes := {}\<rparr>"
        "backend_at 1700000000 False False False"
        "[(report_for ''node-3'', answers ''critical'', backend_at 1700000003 False False False)]"
        "[]" steady_env]
    by blast
  have v: "current_nodes (snd (process_reports live_config
        ([(report_for ''node-2'', answers ''none'', backend_at 1700000000 False False False)]
         @ [(report_for ''node-1'', answers ''critical'',
               backend_at 1700000000 False False False)])
        greylisted_world))
     = [\<lparr>ident = ''node-2'', address = ''192.168.1.102''\<rparr>,
        \<lparr>ident = ''node-3'', address = ''192.168.1.103''\<rparr>,
        \<lparr>ident = ''node-4-unstable'', address = ''192.168.1.104''\<rparr>,
        \<lparr>ident = ''node-new-1700000000'', address = ''192.168.1.201''\<rparr>]"
    by (simp add: ex_defs step_defs str_nat.simps)
  from h1 h2 c v show ?thesis
    by blast
qed

end
